theory Spec2Isabelle
  imports Main
begin

section \<open>Values of the host language\<close>

text \<open>
  The guards of \<^verbatim>\<open>src/index.ts\<close> take a value of type \<^verbatim>\<open>unknown\<close>.  The model covers
  the values that parsed external data is made of: \<^verbatim>\<open>undefined\<close>, \<^verbatim>\<open>null\<close>, booleans,
  numbers, strings, arrays and plain objects; and functions, which are what an object
  inherits under names such as \<^verbatim>\<open>constructor\<close> or \<^verbatim>\<open>toString\<close>.  A function is
  represented by the text that \<^verbatim>\<open>String\<close> gives for it; the library never calls a value.
  Symbols and big integers are not modelled.

  A number is the not-a-number value, one of the two infinities, or an integer
  (\<open>Fin i\<close>, standing for the double of that value, for the integers that a double
  holds exactly and the host prints in plain decimal; fractions and the negative zero are
  not represented).  A string is a list of 8-bit code units.  An object is the list of
  its own enumerable properties in enumeration order, with pairwise distinct keys.  The
  prototype of an object is not part of its value: what an object inherits is given by a
  table of the host (see \<open>get_prop\<close> below).
\<close>

datatype jsnum = NaN | PosInf | NegInf | Fin int

datatype jsval =
    VUndefined
  | VNull
  | VBool bool
  | VNum jsnum
  | VStr string
  | VArr "jsval list"
  | VObj "(string \<times> jsval) list"
  | VFunction string

text \<open>The operator \<^verbatim>\<open>typeof\<close>.\<close>

fun typeof :: "jsval \<Rightarrow> string" where
  "typeof VUndefined = ''undefined''"
| "typeof VNull = ''object''"
| "typeof (VBool b) = ''boolean''"
| "typeof (VNum n) = ''number''"
| "typeof (VStr s) = ''string''"
| "typeof (VArr xs) = ''object''"
| "typeof (VObj kvs) = ''object''"
| "typeof (VFunction t) = ''function''"

subsection \<open>Conversion to strings\<close>

fun show_nat :: "nat \<Rightarrow> string" where
  "show_nat n =
     (if n < 10 then [''0123456789'' ! n]
      else show_nat (n div 10) @ [''0123456789'' ! (n mod 10)])"

declare show_nat.simps [simp del]

definition show_int :: "int \<Rightarrow> string" where
  "show_int i = (if i < 0 then ''-'' @ show_nat (nat (- i)) else show_nat (nat i))"

text \<open>\<^verbatim>\<open>Number.prototype.toString\<close> on the modelled numbers.\<close>

fun num_to_string :: "jsnum \<Rightarrow> string" where
  "num_to_string NaN = ''NaN''"
| "num_to_string PosInf = ''Infinity''"
| "num_to_string NegInf = ''-Infinity''"
| "num_to_string (Fin i) = show_int i"

fun join :: "string \<Rightarrow> string list \<Rightarrow> string" where
  "join sep [] = []"
| "join sep [s] = s"
| "join sep (s # t # ss) = s @ sep @ join sep (t # ss)"

text \<open>
  \<^verbatim>\<open>String(val)\<close>, which is also what a template literal \<^verbatim>\<open>`${val}`\<close> inserts.  An array
  is joined with commas, \<^verbatim>\<open>null\<close> and \<^verbatim>\<open>undefined\<close> elements giving the empty string.
\<close>

fun js_String :: "jsval \<Rightarrow> string" where
  "js_String VUndefined = ''undefined''"
| "js_String VNull = ''null''"
| "js_String (VBool b) = (if b then ''true'' else ''false'')"
| "js_String (VNum n) = num_to_string n"
| "js_String (VStr s) = s"
| "js_String (VArr xs) =
     join '','' (map (\<lambda>x. if x = VUndefined \<or> x = VNull then [] else js_String x) xs)"
| "js_String (VObj kvs) = ''[object Object]''"
| "js_String (VFunction t) = t"

text \<open>\<^verbatim>\<open>Boolean(val)\<close>.\<close>

fun js_Boolean :: "jsval \<Rightarrow> bool" where
  "js_Boolean VUndefined = False"
| "js_Boolean VNull = False"
| "js_Boolean (VBool b) = b"
| "js_Boolean (VNum n) = (n \<noteq> NaN \<and> n \<noteq> Fin 0)"
| "js_Boolean (VStr s) = (s \<noteq> [])"
| "js_Boolean (VArr xs) = True"
| "js_Boolean (VObj kvs) = True"
| "js_Boolean (VFunction t) = True"

text \<open>
  \<^verbatim>\<open>Number(val)\<close>.  Reading a number out of a string is the host's \<^verbatim>\<open>StringToNumber\<close>;
  it is not part of the library and is taken as the parameter \<open>str2num\<close>.  An array is
  converted through its string, a plain object through \<^verbatim>\<open>[object Object]\<close>, a function
  through its text.
\<close>

fun js_Number :: "(string \<Rightarrow> jsnum) \<Rightarrow> jsval \<Rightarrow> jsnum" where
  "js_Number str2num VUndefined = NaN"
| "js_Number str2num VNull = Fin 0"
| "js_Number str2num (VBool b) = (if b then Fin 1 else Fin 0)"
| "js_Number str2num (VNum n) = n"
| "js_Number str2num (VStr s) = str2num s"
| "js_Number str2num (VArr xs) = str2num (js_String (VArr xs))"
| "js_Number str2num (VObj kvs) = str2num (js_String (VObj kvs))"
| "js_Number str2num (VFunction t) = str2num (js_String (VFunction t))"

subsection \<open>\<^verbatim>\<open>JSON.stringify\<close>\<close>

definition hex_digit :: "nat \<Rightarrow> char" where
  "hex_digit n = ''0123456789abcdef'' ! n"

definition json_escape :: "char \<Rightarrow> string" where
  "json_escape c =
     (if c = CHR 0x22 then [CHR 0x5C, CHR 0x22]
      else if c = CHR 0x5C then [CHR 0x5C, CHR 0x5C]
      else if c = CHR 0x08 then [CHR 0x5C, CHR ''b'']
      else if c = CHR 0x09 then [CHR 0x5C, CHR ''t'']
      else if c = CHR 0x0A then [CHR 0x5C, CHR ''n'']
      else if c = CHR 0x0C then [CHR 0x5C, CHR ''f'']
      else if c = CHR 0x0D then [CHR 0x5C, CHR ''r'']
      else if (of_char c :: nat) < 32
        then [CHR 0x5C, CHR ''u'', CHR ''0'', CHR ''0'',
              hex_digit (of_char c div 16), hex_digit (of_char c mod 16)]
      else [c])"

definition json_quote :: "string \<Rightarrow> string" where
  "json_quote s = [CHR 0x22] @ concat (map json_escape s) @ [CHR 0x22]"

text \<open>
  \<^verbatim>\<open>JSON.stringify(val)\<close> returns \<^verbatim>\<open>undefined\<close> (here \<open>None\<close>) for \<^verbatim>\<open>undefined\<close> and for a
  function.  Inside an array such an element is written \<^verbatim>\<open>null\<close>; inside an object the
  property is left out.  A number that is not finite is written \<^verbatim>\<open>null\<close>.
\<close>

fun JSON_stringify :: "jsval \<Rightarrow> string option" where
  "JSON_stringify VUndefined = None"
| "JSON_stringify VNull = Some ''null''"
| "JSON_stringify (VBool b) = Some (if b then ''true'' else ''false'')"
| "JSON_stringify (VNum n) = Some (case n of Fin i \<Rightarrow> show_int i | _ \<Rightarrow> ''null'')"
| "JSON_stringify (VStr s) = Some (json_quote s)"
| "JSON_stringify (VArr xs) =
     Some (''['' @ join '',''
        (map (\<lambda>x. case JSON_stringify x of None \<Rightarrow> ''null'' | Some s \<Rightarrow> s) xs) @ '']'')"
| "JSON_stringify (VObj kvs) =
     Some (''{'' @ join '',''
        (concat (map (\<lambda>kv. case JSON_stringify (snd kv) of None \<Rightarrow> []
                            | Some s \<Rightarrow> [json_quote (fst kv) @ '':'' @ s]) kvs)) @ ''}'')"
| "JSON_stringify (VFunction t) = None"

text \<open>A template literal turns the \<^verbatim>\<open>undefined\<close> result into the text \<^verbatim>\<open>undefined\<close>.\<close>

definition stringified :: "jsval \<Rightarrow> string" where
  "stringified v = (case JSON_stringify v of None \<Rightarrow> ''undefined'' | Some s \<Rightarrow> s)"

subsection \<open>Properties\<close>

text \<open>
  The own property \<open>k\<close> of an array or a plain object, if there is one.  The own
  properties of an array are its indices and \<^verbatim>\<open>length\<close>.
\<close>

fun own_prop :: "jsval \<Rightarrow> string \<Rightarrow> jsval option" where
  "own_prop (VObj kvs) k = map_of kvs k"
| "own_prop (VArr xs) k =
     (if k = ''length'' then Some (VNum (Fin (int (length xs))))
      else case find (\<lambda>i. show_nat i = k) [0..<length xs] of
             None \<Rightarrow> None | Some i \<Rightarrow> Some (xs ! i))"
| "own_prop v k = None"

text \<open>
  What a value inherits is decided by the prototype objects of the host, which are not
  part of the library (and which a program can change): they are the parameter
  \<open>inherited\<close>, where \<open>inherited val k\<close> is the value that reading \<open>k\<close> on the prototype
  chain of \<open>val\<close> gives, if the chain defines \<open>k\<close>.  On a current host a plain object
  inherits, among others, the functions \<^verbatim>\<open>constructor\<close>, \<^verbatim>\<open>toString\<close> and \<^verbatim>\<open>valueOf\<close>.
\<close>

type_synonym prototypes = "jsval \<Rightarrow> string \<Rightarrow> jsval option"

text \<open>
  \<^verbatim>\<open>val[k]\<close> for an array or an object: the own property if there is one, else what the
  prototype chain gives, else \<^verbatim>\<open>undefined\<close>.  The library reads properties only of values
  that are arrays or objects.
\<close>

definition get_prop :: "prototypes \<Rightarrow> jsval \<Rightarrow> string \<Rightarrow> jsval" where
  "get_prop inherited val k =
     (case own_prop val k of
        Some v \<Rightarrow> v
      | None \<Rightarrow> (case inherited val k of Some v \<Rightarrow> v | None \<Rightarrow> VUndefined))"

text \<open>
  \<^verbatim>\<open>out[k] = v\<close> on the property list of the object \<^verbatim>\<open>out\<close>, which starts as the literal
  \<^verbatim>\<open>{}\<close>.  The name \<^verbatim>\<open>__proto__\<close> is an accessor of the prototype of such an object:
  assigning to it runs the setter, which may replace the prototype and stores no own
  property.  Every other name is stored as an own property.
\<close>

fun store_prop :: "(string \<times> jsval) list \<Rightarrow> string \<Rightarrow> jsval \<Rightarrow> (string \<times> jsval) list" where
  "store_prop [] k v = [(k, v)]"
| "store_prop (p # ps) k v = (if fst p = k then (k, v) # ps else p # store_prop ps k v)"

definition set_prop :: "(string \<times> jsval) list \<Rightarrow> string \<Rightarrow> jsval \<Rightarrow> (string \<times> jsval) list" where
  "set_prop out k v = (if k = ''__proto__'' then out else store_prop out k v)"

text \<open>
  The keys that \<^verbatim>\<open>for (const k in val)\<close> visits: the own enumerable properties.  (The
  prototypes of a host define no enumerable property unless a program adds one.)
\<close>

fun enum_keys :: "jsval \<Rightarrow> string list" where
  "enum_keys (VObj kvs) = map fst kvs"
| "enum_keys (VArr xs) = map show_nat [0..<length xs]"
| "enum_keys v = []"

text \<open>
  \<^verbatim>\<open>values.includes(value)\<close> compares with \<^verbatim>\<open>SameValueZero\<close>: primitives by value (the
  not-a-number value equals itself), arrays and objects by identity.  Values carry no
  identity here, and an input is a fresh value, so an array or object input is never the
  same object as a listed one.  A function is compared by its text: functions of
  different text are different functions.
\<close>

fun same_value_zero :: "jsval \<Rightarrow> jsval \<Rightarrow> bool" where
  "same_value_zero (VArr xs) w = False"
| "same_value_zero (VObj kvs) w = False"
| "same_value_zero v w = (v = w)"

definition arr_includes :: "jsval list \<Rightarrow> jsval \<Rightarrow> bool" where
  "arr_includes vals v = list_ex (same_value_zero v) vals"

text \<open>\<^verbatim>\<open>s.includes(t)\<close> on strings: \<open>t\<close> occurs in \<open>s\<close>.\<close>

fun starts_with :: "string \<Rightarrow> string \<Rightarrow> bool" where
  "starts_with s [] = True"
| "starts_with [] (c # t) = False"
| "starts_with (d # s) (c # t) = (d = c \<and> starts_with s t)"

fun str_includes :: "string \<Rightarrow> string \<Rightarrow> bool" where
  "str_includes [] t = (t = [])"
| "str_includes (d # s) t = (starts_with (d # s) t \<or> str_includes s t)"

section \<open>Completions and effects\<close>

text \<open>
  A call either returns a value or throws.  What the library throws is an \<^verbatim>\<open>Error\<close>
  object; it is represented by its message.

  The only state of a factory is the flag \<^verbatim>\<open>forceError\<close>.  An effect takes the flag at
  entry and gives the completion, the flag at exit and the messages passed to the custom
  error handler during the call, in order.
\<close>

datatype 'a completion = Return 'a | Throw string

type_synonym 'a effect = "bool \<Rightarrow> 'a completion \<times> bool \<times> string list"

definition completion_of :: "'a completion \<times> bool \<times> string list \<Rightarrow> 'a completion" where
  "completion_of r = fst r"

definition forceError_of :: "'a completion \<times> bool \<times> string list \<Rightarrow> bool" where
  "forceError_of r = fst (snd r)"

definition handled_of :: "'a completion \<times> bool \<times> string list \<Rightarrow> string list" where
  "handled_of r = snd (snd r)"

fun returns :: "'a completion \<Rightarrow> bool" where
  "returns (Return x) = True"
| "returns (Throw e) = False"

definition ret :: "'a \<Rightarrow> 'a effect" where
  "ret x forceError = (Return x, forceError, [])"

definition throw :: "string \<Rightarrow> 'a effect" where
  "throw e forceError = (Throw e, forceError, [])"

text \<open>Sequencing: the rest runs only when the first part returns.\<close>

definition andThen :: "'a effect \<Rightarrow> ('a \<Rightarrow> 'b effect) \<Rightarrow> 'b effect" where
  "andThen m k forceError =
     (case m forceError of
        (Throw e, f1, l1) \<Rightarrow> (Throw e, f1, l1)
      | (Return x, f1, l1) \<Rightarrow> (case k x f1 of (c, f2, l2) \<Rightarrow> (c, f2, l1 @ l2)))"

text \<open>\<^verbatim>\<open>try { m } catch (e) { h e }\<close>.\<close>

definition tryCatch :: "'a effect \<Rightarrow> (string \<Rightarrow> 'a effect) \<Rightarrow> 'a effect" where
  "tryCatch m h forceError =
     (case m forceError of
        (Return x, f1, l1) \<Rightarrow> (Return x, f1, l1)
      | (Throw e, f1, l1) \<Rightarrow> (case h e f1 of (c, f2, l2) \<Rightarrow> (c, f2, l1 @ l2)))"

text \<open>
  \<^verbatim>\<open>try { m } finally { fin }\<close>: the block \<open>fin\<close> runs however \<open>m\<close> completes; the
  completion of \<open>m\<close> stands unless \<open>fin\<close> throws.
\<close>

definition tryFinally :: "'a effect \<Rightarrow> unit effect \<Rightarrow> 'a effect" where
  "tryFinally m fin forceError =
     (case m forceError of
        (c, f1, l1) \<Rightarrow>
          (case fin f1 of
             (Return u, f2, l2) \<Rightarrow> (c, f2, l1 @ l2)
           | (Throw e, f2, l2) \<Rightarrow> (Throw e, f2, l1 @ l2)))"

definition getForceError :: "bool effect" where
  "getForceError forceError = (Return forceError, forceError, [])"

definition setForceError :: "bool \<Rightarrow> unit effect" where
  "setForceError b forceError = (Return (), b, [])"

definition runIf :: "bool \<Rightarrow> unit effect \<Rightarrow> unit effect" where
  "runIf b m = (if b then m else ret ())"

text \<open>\<^verbatim>\<open>xs.forEach(f)\<close>.\<close>

fun forEach :: "'a list \<Rightarrow> ('a \<Rightarrow> unit effect) \<Rightarrow> unit effect" where
  "forEach [] f = ret ()"
| "forEach (x # xs) f = andThen (f x) (\<lambda>u. forEach xs f)"

text \<open>\<^verbatim>\<open>String(e)\<close> for a caught \<^verbatim>\<open>Error\<close> with message \<open>e\<close>.\<close>

definition error_to_string :: "string \<Rightarrow> string" where
  "error_to_string e = (if e = [] then ''Error'' else ''Error: '' @ e)"

section \<open>The factory \<^verbatim>\<open>TypeCalm\<close>\<close>

text \<open>
  A factory is made from the optional \<^verbatim>\<open>customErrorHandler\<close>.  A handler is a function
  of the message; it returns (\<open>None\<close>) or throws an error (\<open>Some\<close> of its message).
  Every definition below takes the handler option of its factory as its argument
  \<open>customErrorHandler\<close>.
\<close>

type_synonym handler = "(string \<Rightarrow> string option) option"

type_synonym TypeGuard = "jsval \<Rightarrow> jsval effect"

subsection \<open>Error messages\<close>

definition invalidType :: "jsval \<Rightarrow> string \<Rightarrow> string" where
  "invalidType val type = ''`'' @ stringified val @ ''` is not '' @ type @ ''.''"

definition castingType :: "jsval \<Rightarrow> string \<Rightarrow> string" where
  "castingType val type = ''Casting `'' @ stringified val @ ''` to '' @ type @ ''.''"

subsection \<open>Error handling\<close>

definition defaultErrorHandler :: "string \<Rightarrow> unit effect" where
  "defaultErrorHandler str = throw str"

text \<open>A call of the custom handler is recorded with its message.\<close>

definition callCustom :: "(string \<Rightarrow> string option) \<Rightarrow> string \<Rightarrow> unit effect" where
  "callCustom h str forceError =
     ((case h str of None \<Rightarrow> Return () | Some e \<Rightarrow> Throw e), forceError, [str])"

definition errorHandler :: "handler \<Rightarrow> string \<Rightarrow> unit effect" where
  "errorHandler customErrorHandler str forceError =
     (if forceError \<or> customErrorHandler = None then defaultErrorHandler str forceError
      else callCustom (the customErrorHandler) str forceError)"

subsection \<open>Basic validators\<close>

definition string :: "handler \<Rightarrow> TypeGuard" where
  "string customErrorHandler val =
     (if typeof val \<noteq> ''string'' then
        andThen (errorHandler customErrorHandler (invalidType val ''a `string`'')) (\<lambda>u.
        andThen (errorHandler customErrorHandler (castingType val ''a `string`'')) (\<lambda>u.
        ret (VStr (js_String val))))
      else ret val)"

text \<open>The message \<^verbatim>\<open>`"${val}" is a NaN`\<close>.\<close>

definition nanMessage :: "jsval \<Rightarrow> string" where
  "nanMessage val = [CHR 0x22] @ js_String val @ [CHR 0x22] @ '' is a NaN''"

text \<open>
  The test \<^verbatim>\<open>val !== val\<close> is reached only by a number and holds exactly for the
  not-a-number value.
\<close>

definition number :: "(string \<Rightarrow> jsnum) \<Rightarrow> handler \<Rightarrow> TypeGuard" where
  "number str2num customErrorHandler val =
     (if typeof val \<noteq> ''number'' then
        andThen (errorHandler customErrorHandler (invalidType val ''a `number`'')) (\<lambda>u.
        andThen (errorHandler customErrorHandler (castingType val ''a `number`'')) (\<lambda>u.
        ret (VNum (js_Number str2num val))))
      else
        andThen (runIf (val = VNum NaN)
                   (errorHandler customErrorHandler (nanMessage val))) (\<lambda>u.
        ret val))"

definition boolean :: "handler \<Rightarrow> TypeGuard" where
  "boolean customErrorHandler val =
     (if typeof val \<noteq> ''boolean'' then
        andThen (errorHandler customErrorHandler (invalidType val ''a `boolean`'')) (\<lambda>u.
        andThen (errorHandler customErrorHandler (castingType val ''a `boolean`'')) (\<lambda>u.
        ret (VBool (js_Boolean val))))
      else ret val)"

subsection \<open>Structural validators\<close>

text \<open>
  \<^verbatim>\<open>val.map(inner)\<close>: the elements are passed to \<open>inner\<close> from left to right, and the
  first throw ends the call.
\<close>

fun map_guard :: "TypeGuard \<Rightarrow> jsval list \<Rightarrow> (jsval list) effect" where
  "map_guard inner [] = ret []"
| "map_guard inner (x # xs) =
     andThen (inner x) (\<lambda>y.
     andThen (map_guard inner xs) (\<lambda>ys.
     ret (y # ys)))"

text \<open>The message \<^verbatim>\<open>`Wrapping "${val}" in array`\<close>.\<close>

definition wrapping :: "jsval \<Rightarrow> string" where
  "wrapping val = ''Wrapping '' @ [CHR 0x22] @ js_String val @ [CHR 0x22] @ '' in array''"

definition array :: "handler \<Rightarrow> TypeGuard \<Rightarrow> TypeGuard" where
  "array customErrorHandler inner val =
     (case val of
        VArr xs \<Rightarrow> andThen (map_guard inner xs) (\<lambda>ys. ret (VArr ys))
      | _ \<Rightarrow>
        andThen (errorHandler customErrorHandler (invalidType val ''an `array`'')) (\<lambda>u.
        andThen (errorHandler customErrorHandler (wrapping val)) (\<lambda>u.
        andThen (map_guard inner [val]) (\<lambda>ys. ret (VArr ys)))))"

text \<open>The two messages that \<^verbatim>\<open>object\<close> and \<^verbatim>\<open>recordOf\<close> build in place.\<close>

definition cannotCast :: "jsval \<Rightarrow> string" where
  "cannotCast val =
     ''Cannot cast `'' @ stringified val @ ''` to object. Fingers crossed it's not important.''"

definition propertyError :: "string \<Rightarrow> string \<Rightarrow> string" where
  "propertyError k message =
     ''Object '' @ [CHR 0x27] @ k @ [CHR 0x27] @ '' property error: '' @ message"

text \<open>
  One round of the loop \<^verbatim>\<open>for (const k in inner)\<close> of \<^verbatim>\<open>object\<close>, for the key \<open>k\<close> with
  its guard \<open>g\<close>; \<open>out\<close> is the object built so far.
\<close>

definition object_field ::
  "prototypes \<Rightarrow> handler \<Rightarrow> string \<Rightarrow> TypeGuard \<Rightarrow> jsval \<Rightarrow> (string \<times> jsval) list
     \<Rightarrow> ((string \<times> jsval) list) effect" where
  "object_field inherited customErrorHandler k g val out =
     andThen getForceError (\<lambda>skipCleanup.
     tryFinally
       (tryCatch
          (andThen (setForceError True) (\<lambda>u.
           andThen (g (get_prop inherited val k)) (\<lambda>r.
           ret (set_prop out k r))))
          (\<lambda>e.
           andThen (runIf (\<not> skipCleanup) (setForceError False)) (\<lambda>u.
           andThen (errorHandler customErrorHandler (propertyError k e)) (\<lambda>u.
           ret (set_prop out k (get_prop inherited val k))))))
       (runIf (\<not> skipCleanup) (setForceError False)))"

fun object_fields ::
  "prototypes \<Rightarrow> handler \<Rightarrow> (string \<times> TypeGuard) list \<Rightarrow> jsval \<Rightarrow> (string \<times> jsval) list
     \<Rightarrow> ((string \<times> jsval) list) effect" where
  "object_fields inherited customErrorHandler [] val out = ret out"
| "object_fields inherited customErrorHandler (kg # rest) val out =
     andThen (object_field inherited customErrorHandler (fst kg) (snd kg) val out) (\<lambda>out'.
     object_fields inherited customErrorHandler rest val out')"

text \<open>
  The shape \<open>inner\<close> is the list of its keys with their guards, in the order in which
  \<^verbatim>\<open>for (const k in inner)\<close> visits them.
\<close>

definition object :: "prototypes \<Rightarrow> handler \<Rightarrow> (string \<times> TypeGuard) list \<Rightarrow> TypeGuard" where
  "object inherited customErrorHandler inner val =
     (if val = VNull \<or> typeof val \<noteq> ''object'' then
        andThen (errorHandler customErrorHandler (invalidType val ''an `object`'')) (\<lambda>u.
        andThen (errorHandler customErrorHandler (cannotCast val)) (\<lambda>u.
        ret val))
      else
        andThen (object_fields inherited customErrorHandler inner val []) (\<lambda>out.
        ret (VObj out)))"

fun recordOf_fields ::
  "prototypes \<Rightarrow> TypeGuard \<Rightarrow> jsval \<Rightarrow> string list \<Rightarrow> (string \<times> jsval) list
     \<Rightarrow> ((string \<times> jsval) list) effect" where
  "recordOf_fields inherited inner val [] out = ret out"
| "recordOf_fields inherited inner val (k # ks) out =
     andThen (inner (get_prop inherited val k)) (\<lambda>r.
     recordOf_fields inherited inner val ks (set_prop out k r))"

definition recordOf :: "prototypes \<Rightarrow> handler \<Rightarrow> TypeGuard \<Rightarrow> TypeGuard" where
  "recordOf inherited customErrorHandler inner val =
     (if val = VNull \<or> typeof val \<noteq> ''object'' then
        andThen (errorHandler customErrorHandler (invalidType val ''an `object`'')) (\<lambda>u.
        andThen (errorHandler customErrorHandler (cannotCast val)) (\<lambda>u.
        ret val))
      else
        andThen (recordOf_fields inherited inner val (enum_keys val) []) (\<lambda>out.
        ret (VObj out)))"

subsection \<open>Optional modifiers\<close>

definition nullable :: "TypeGuard \<Rightarrow> TypeGuard" where
  "nullable inner val = (if val = VNull then ret val else inner val)"

definition optional :: "TypeGuard \<Rightarrow> TypeGuard" where
  "optional inner val = (if typeof val = ''undefined'' then ret val else inner val)"

text \<open>
  The \<^verbatim>\<open>try\<close> and \<^verbatim>\<open>catch\<close> blocks of \<^verbatim>\<open>either\<close>.  Both \<^verbatim>\<open>catch\<close> clauses only push
  the caught error, so this part never throws; it gives the locals \<^verbatim>\<open>ok\<close> and
  \<^verbatim>\<open>errors\<close> with which the \<^verbatim>\<open>finally\<close> block starts.
\<close>

definition either_probe ::
  "TypeGuard \<Rightarrow> TypeGuard \<Rightarrow> jsval \<Rightarrow> (bool \<times> string list) effect" where
  "either_probe inner1 inner2 val =
     tryCatch
       (andThen (inner1 val) (\<lambda>r. ret (True, [])))
       (\<lambda>e1.
          tryCatch
            (andThen (inner2 val) (\<lambda>r. ret (True, [e1])))
            (\<lambda>e2. ret (False, [e1, e2])))"

text \<open>
  The \<^verbatim>\<open>finally\<close> block of \<^verbatim>\<open>either\<close> ends in \<^verbatim>\<open>return value\<close>, which is the result
  unless a call of \<^verbatim>\<open>errorHandler\<close> before it throws.
\<close>

definition either :: "handler \<Rightarrow> TypeGuard \<Rightarrow> TypeGuard \<Rightarrow> TypeGuard" where
  "either customErrorHandler inner1 inner2 val =
     andThen getForceError (\<lambda>skipCleanup.
     andThen (setForceError True) (\<lambda>u.
     andThen (either_probe inner1 inner2 val) (\<lambda>probe.
     andThen (runIf (\<not> skipCleanup) (setForceError False)) (\<lambda>u.
     andThen (runIf (\<not> fst probe)
                (forEach (snd probe)
                   (\<lambda>e. errorHandler customErrorHandler (error_to_string e)))) (\<lambda>u.
     ret val)))))"

subsection \<open>Checker\<close>

definition is' :: "jsval \<Rightarrow> TypeGuard \<Rightarrow> bool effect" where
  "is' val typeguard =
     andThen getForceError (\<lambda>skipCleanup.
     tryFinally
       (tryCatch
          (andThen (setForceError True) (\<lambda>u.
           andThen (typeguard val) (\<lambda>r.
           ret True)))
          (\<lambda>e. ret False))
       (runIf (\<not> skipCleanup) (setForceError False)))"

text \<open>
  The last statement of \<^verbatim>\<open>oneOf\<close> is the expression \<^verbatim>\<open>value as unknown as T[number]\<close>,
  not a \<^verbatim>\<open>return\<close>: the function ends without a result, which is \<^verbatim>\<open>undefined\<close>.
\<close>

definition oneOf :: "handler \<Rightarrow> jsval list \<Rightarrow> TypeGuard" where
  "oneOf customErrorHandler vals val =
     (if arr_includes vals val then ret val
      else
        andThen (errorHandler customErrorHandler
                   (invalidType val (''one of '' @ js_String (VArr vals)))) (\<lambda>u.
        ret VUndefined))"

subsection \<open>The guards of a factory\<close>

text \<open>
  The guards that can be built from what one factory returns: its primitive guards and
  \<^verbatim>\<open>oneOf\<close>, closed under its combinators.
\<close>

inductive bound_guard :: "handler \<Rightarrow> TypeGuard \<Rightarrow> bool" for h :: handler where
  bg_string: "bound_guard h (string h)"
| bg_number: "bound_guard h (number str2num h)"
| bg_boolean: "bound_guard h (boolean h)"
| bg_oneOf: "bound_guard h (oneOf h vals)"
| bg_array: "bound_guard h g \<Longrightarrow> bound_guard h (array h g)"
| bg_object: "(\<forall>kg \<in> set shape. bound_guard h (snd kg)) \<Longrightarrow> bound_guard h (object inh h shape)"
| bg_recordOf: "bound_guard h g \<Longrightarrow> bound_guard h (recordOf inh h g)"
| bg_nullable: "bound_guard h g \<Longrightarrow> bound_guard h (nullable g)"
| bg_optional: "bound_guard h g \<Longrightarrow> bound_guard h (optional g)"
| bg_either: "bound_guard h g1 \<Longrightarrow> bound_guard h g2 \<Longrightarrow> bound_guard h (either h g1 g2)"

section \<open>Notions used in the properties\<close>

text \<open>
  An effect keeps the discipline of the flag when it leaves \<^verbatim>\<open>forceError\<close> as it found
  it and, when the flag is set or no custom handler is configured, calls no handler.
\<close>

definition disciplined :: "handler \<Rightarrow> 'a effect \<Rightarrow> bool" where
  "disciplined h m \<longleftrightarrow>
     (\<forall>f. forceError_of (m f) = f \<and> (f \<or> h = None \<longrightarrow> handled_of (m f) = []))"

text \<open>
  The number of failures that a call reports through the error policy: the calls of the
  custom handler, and one more when the call throws.
\<close>

definition reported :: "'a completion \<times> bool \<times> string list \<Rightarrow> nat" where
  "reported r = length (handled_of r) + (if returns (completion_of r) then 0 else 1)"

text \<open>The declared fields of a shape whose guard throws on the field of \<open>val\<close> when the flag is set.\<close>

definition failing_fields ::
  "prototypes \<Rightarrow> (string \<times> TypeGuard) list \<Rightarrow> jsval \<Rightarrow> (string \<times> TypeGuard) list" where
  "failing_fields inh shape val =
     filter (\<lambda>kg. \<not> returns (completion_of (snd kg (get_prop inh val (fst kg)) True))) shape"

subsection \<open>Parameters of the examples\<close>

text \<open>
  A reading of numbers out of strings for the examples.  It is exact on the empty string
  and on strings of decimal digits; signs, fractions, exponents, other radixes and
  surrounding white space are not recognised.  No example below reaches it with another
  string.
\<close>

definition is_digit :: "char \<Rightarrow> bool" where
  "is_digit c \<longleftrightarrow> c \<in> set ''0123456789''"

definition read_decimal :: "string \<Rightarrow> jsnum" where
  "read_decimal s =
     (if s = [] then Fin 0
      else if list_all is_digit s
        then Fin (int (foldl (\<lambda>n c. 10 * n + (of_char c - 48)) 0 s))
      else NaN)"

text \<open>
  A table of inherited properties for the examples: some of the functions that a plain
  object inherits on a current host, with the texts that the V8 engine gives for them.
  It is exact for plain objects on the names that it lists and on the names that no
  prototype defines; no example reads another name, and no example reads a text.
\<close>

definition sample_inherited :: prototypes where
  "sample_inherited val k =
     (case val of
        VObj kvs \<Rightarrow>
          map_of
            [(''constructor'', VFunction ''function Object() { [native code] }''),
             (''toString'', VFunction ''function toString() { [native code] }''),
             (''valueOf'', VFunction ''function valueOf() { [native code] }''),
             (''hasOwnProperty'', VFunction ''function hasOwnProperty() { [native code] }'')] k
      | _ \<Rightarrow> None)"

text \<open>A custom handler that returns on every message.\<close>

definition silent :: "string \<Rightarrow> string option" where
  "silent str = None"

section \<open>Properties of the effects\<close>

lemmas effect_defs =
  ret_def throw_def andThen_def tryCatch_def tryFinally_def getForceError_def
  setForceError_def runIf_def completion_of_def forceError_of_def handled_of_def

lemmas handler_defs = errorHandler_def defaultErrorHandler_def callCustom_def

lemmas prop_defs = get_prop_def set_prop_def sample_inherited_def

lemma disciplinedI:
  "(\<And>f. forceError_of (m f) = f) \<Longrightarrow> (\<And>f. f \<or> h = None \<Longrightarrow> handled_of (m f) = [])
     \<Longrightarrow> disciplined h m"
  by (simp add: disciplined_def)

lemma disciplined_result:
  assumes "disciplined h m"
  obtains c l where "m f = (c, f, l)" and "f \<or> h = None \<Longrightarrow> l = []"
proof -
  obtain c f' l where r: "m f = (c, f', l)" by (cases "m f") auto
  from assms have "forceError_of (m f) = f \<and> (f \<or> h = None \<longrightarrow> handled_of (m f) = [])"
    by (simp add: disciplined_def)
  with r have "f' = f" and "f \<or> h = None \<Longrightarrow> l = []"
    by (simp_all add: forceError_of_def handled_of_def)
  with r that show thesis by blast
qed

lemma disciplined_ret: "disciplined h (ret x)"
  by (simp add: disciplined_def effect_defs)

lemma disciplined_errorHandler: "disciplined h (errorHandler h str)"
  by (simp add: disciplined_def handler_defs effect_defs)

lemma disciplined_andThen:
  assumes "disciplined h m" and "\<And>x. disciplined h (k x)"
  shows "disciplined h (andThen m k)"
proof (rule disciplinedI)
  fix f
  obtain c l where m: "m f = (c, f, l)" and l: "f \<or> h = None \<Longrightarrow> l = []"
    using assms(1) by (rule disciplined_result [where f = f]) auto
  show "forceError_of (andThen m k f) = f"
  proof (cases c)
    case (Return x)
    obtain c' l' where "k x f = (c', f, l')"
      using assms(2) [of x] by (rule disciplined_result [where f = f]) auto
    with m Return show ?thesis by (simp add: andThen_def forceError_of_def)
  next
    case (Throw e)
    with m show ?thesis by (simp add: andThen_def forceError_of_def)
  qed
  assume q: "f \<or> h = None"
  show "handled_of (andThen m k f) = []"
  proof (cases c)
    case (Return x)
    obtain c' l' where "k x f = (c', f, l')" and "f \<or> h = None \<Longrightarrow> l' = []"
      using assms(2) [of x] by (rule disciplined_result [where f = f]) auto
    with m l q Return show ?thesis by (simp add: andThen_def handled_of_def)
  next
    case (Throw e)
    with m l q show ?thesis by (simp add: andThen_def handled_of_def)
  qed
qed

lemma disciplined_runIf: "disciplined h m \<Longrightarrow> disciplined h (runIf b m)"
  by (simp add: runIf_def disciplined_ret)

lemma disciplined_forEach:
  assumes "\<And>x. disciplined h (k x)"
  shows "disciplined h (forEach xs k)"
  by (induction xs) (simp_all add: assms disciplined_andThen disciplined_ret)

lemma first_report_raises:
  "f \<or> h = None \<Longrightarrow> andThen (errorHandler h m1) k f = (Throw m1, f, [])"
  by (auto simp: handler_defs effect_defs)


section \<open>The flag is restored by every guard of a factory\<close>

lemma disciplined_string: "disciplined h (string h v)"
  by (simp add: string_def disciplined_andThen disciplined_errorHandler disciplined_ret)

lemma disciplined_boolean: "disciplined h (boolean h v)"
  by (simp add: boolean_def disciplined_andThen disciplined_errorHandler disciplined_ret)

lemma disciplined_number: "disciplined h (number s h v)"
  by (simp add: number_def disciplined_andThen disciplined_errorHandler disciplined_ret
      disciplined_runIf)

lemma disciplined_oneOf: "disciplined h (oneOf h vals v)"
  by (simp add: oneOf_def disciplined_andThen disciplined_errorHandler disciplined_ret)

lemma disciplined_map_guard:
  assumes "\<And>v. disciplined h (g v)"
  shows "disciplined h (map_guard g xs)"
  by (induction xs) (simp_all add: assms disciplined_andThen disciplined_ret)

lemma disciplined_array:
  assumes "\<And>v. disciplined h (g v)"
  shows "disciplined h (array h g v)"
  by (cases v)
    (simp_all add: array_def assms disciplined_andThen disciplined_errorHandler disciplined_ret
      disciplined_map_guard)

lemma disciplined_recordOf_fields:
  assumes "\<And>v. disciplined h (g v)"
  shows "disciplined h (recordOf_fields inh g val ks out)"
  by (induction ks arbitrary: out) (simp_all add: assms disciplined_andThen disciplined_ret)

lemma disciplined_recordOf:
  assumes "\<And>v. disciplined h (g v)"
  shows "disciplined h (recordOf inh h g v)"
  by (simp add: recordOf_def assms disciplined_andThen disciplined_errorHandler disciplined_ret
      disciplined_recordOf_fields)

lemma disciplined_nullable: "disciplined h (g v) \<Longrightarrow> disciplined h (nullable g v)"
  by (simp add: nullable_def disciplined_ret)

lemma disciplined_optional: "disciplined h (g v) \<Longrightarrow> disciplined h (optional g v)"
  by (simp add: optional_def disciplined_ret)

text \<open>
  One round of the loop of \<^verbatim>\<open>object\<close>: the guard of the field runs with the flag set and
  leaves it set, and the \<^verbatim>\<open>catch\<close> and \<^verbatim>\<open>finally\<close> blocks clear it exactly when it was
  clear at entry.
\<close>

lemma disciplined_object_field:
  assumes "\<And>v. disciplined h (g v)"
  shows "disciplined h (object_field inh h k g val out)"
proof (rule disciplinedI)
  fix f
  obtain c where g: "g (get_prop inh val k) True = (c, True, [])"
    using assms [of "get_prop inh val k"] by (rule disciplined_result [where f = True]) auto
  show "forceError_of (object_field inh h k g val out f) = f"
    using g
    by (cases c; cases f; cases h)
      (simp_all add: object_field_def handler_defs effect_defs split: option.splits)
  assume "f \<or> h = None"
  then show "handled_of (object_field inh h k g val out f) = []"
    using g
    by (cases c; cases f; cases h)
      (simp_all add: object_field_def handler_defs effect_defs split: option.splits)
qed

lemma disciplined_object_fields:
  assumes "\<forall>kg \<in> set shape. \<forall>v. disciplined h (snd kg v)"
  shows "disciplined h (object_fields inh h shape val out)"
  using assms
  by (induction shape arbitrary: out)
    (simp_all add: disciplined_andThen disciplined_ret disciplined_object_field)

lemma disciplined_object:
  assumes "\<forall>kg \<in> set shape. \<forall>v. disciplined h (snd kg v)"
  shows "disciplined h (object inh h shape v)"
  by (simp add: object_def assms disciplined_andThen disciplined_errorHandler disciplined_ret
      disciplined_object_fields)

lemma disciplined_either:
  assumes "\<And>v. disciplined h (a v)" and "\<And>v. disciplined h (b v)"
  shows "disciplined h (either h a b v)"
proof (rule disciplinedI)
  fix f
  obtain c1 where a: "a v True = (c1, True, [])"
    using assms(1) [of v] by (rule disciplined_result [where f = True]) auto
  obtain c2 where b: "b v True = (c2, True, [])"
    using assms(2) [of v] by (rule disciplined_result [where f = True]) auto
  show "forceError_of (either h a b v f) = f"
    using a b
    by (cases c1; cases c2; cases f; cases h)
      (simp_all add: either_def either_probe_def handler_defs effect_defs split: option.splits)
  assume "f \<or> h = None"
  then show "handled_of (either h a b v f) = []"
    using a b
    by (cases c1; cases c2; cases f; cases h)
      (simp_all add: either_def either_probe_def handler_defs effect_defs split: option.splits)
qed

lemma bound_guard_disciplined: "bound_guard h g \<Longrightarrow> disciplined h (g v)"
proof (induction arbitrary: v rule: bound_guard.induct)
  case (bg_object shape)
  then show ?case by (simp add: disciplined_object)
qed (simp_all add: disciplined_string disciplined_number disciplined_boolean disciplined_oneOf
    disciplined_array disciplined_recordOf disciplined_nullable disciplined_optional
    disciplined_either)

lemma is_result:
  assumes "disciplined h (g v)"
  shows "is' v g f = (Return (returns (completion_of (g v True))), f, [])"
proof -
  obtain c where g: "g v True = (c, True, [])"
    using assms by (rule disciplined_result [where f = True]) auto
  then show ?thesis
    by (cases c; cases f) (simp_all add: is'_def effect_defs)
qed

section \<open>Messages of the examples\<close>

lemma ex_messages:
  "invalidType (VBool True) ''a `number`'' = ''`true` is not a `number`.''"
  "castingType (VBool True) ''a `number`'' = ''Casting `true` to a `number`.''"
  "invalidType (VBool True) ''a `string`'' = ''`true` is not a `string`.''"
  "castingType (VBool True) ''a `string`'' = ''Casting `true` to a `string`.''"
  "invalidType (VStr ''4'') ''a `number`'' = ''`\"4\"` is not a `number`.''"
  "invalidType (VStr ''4'') ''a `boolean`'' = ''`\"4\"` is not a `boolean`.''"
  "castingType (VStr ''4'') ''a `boolean`'' = ''Casting `\"4\"` to a `boolean`.''"
  by (simp_all add: invalidType_def castingType_def stringified_def json_quote_def
      json_escape_def)

section \<open>Primitive guards\<close>



lemma show_int_ex:
  "show_int 1 = ''1''" "show_int 2 = ''2''" "show_int 3 = ''3''" "show_int 4 = ''4''"
  by (simp_all add: show_int_def show_nat.simps)

lemma ex_messages_more:
  "invalidType (VNum (Fin 4)) ''a `string`'' = ''`4` is not a `string`.''"
  "invalidType (VStr ''x'') ''a `number`'' = ''`\"x\"` is not a `number`.''"
  "invalidType (VFunction t) ''a `string`'' = ''`undefined` is not a `string`.''"
  by (simp_all add: invalidType_def stringified_def show_int_ex json_quote_def json_escape_def)

lemma nanMessage_NaN: "nanMessage (VNum NaN) = ''\"NaN\" is a NaN''"
  by (simp add: nanMessage_def)

text \<open>
  C4.  A primitive guard returns an input of its own kind unchanged, calling no handler
  and leaving the flag alone; for \<^verbatim>\<open>number\<close> this holds for every number other than the
  not-a-number value.  That value passes the test of the kind, and \<^verbatim>\<open>number\<close> reports it
  with a message of its own, \<^verbatim>\<open>"NaN" is a NaN\<close>, which is neither of the two messages of
  a kind mismatch: it is thrown when no custom handler is configured or the flag is set,
  and passed to a returning custom handler otherwise, after which the value is returned.
\<close>

theorem primitive_identity:
  "(typeof v = ''string'' \<longrightarrow> string h v f = (Return v, f, []))
 \<and> (typeof v = ''boolean'' \<longrightarrow> boolean h v f = (Return v, f, []))
 \<and> (typeof v = ''number'' \<and> v \<noteq> VNum NaN \<longrightarrow> number s h v f = (Return v, f, []))
 \<and> typeof (VNum NaN) = ''number''
 \<and> (f \<or> h = None \<longrightarrow>
       number s h (VNum NaN) f = (Throw (nanMessage (VNum NaN)), f, []))
 \<and> (\<not> f \<and> h = Some c \<and> c (nanMessage (VNum NaN)) = None \<longrightarrow>
       number s h (VNum NaN) f = (Return (VNum NaN), False, [nanMessage (VNum NaN)]))
 \<and> nanMessage (VNum NaN) \<noteq> invalidType w t
 \<and> nanMessage (VNum NaN) \<noteq> castingType w t"
  by (auto simp: string_def boolean_def number_def nanMessage_def invalidType_def castingType_def
      handler_defs effect_defs)

theorem primitive_identity_witness:
  "typeof (VStr ''4'') = ''string''
 \<and> string None (VStr ''4'') False = (Return (VStr ''4''), False, [])
 \<and> typeof (VBool True) = ''boolean''
 \<and> boolean None (VBool True) False = (Return (VBool True), False, [])
 \<and> typeof (VNum (Fin 4)) = ''number'' \<and> VNum (Fin 4) \<noteq> VNum NaN
 \<and> number read_decimal None (VNum (Fin 4)) False = (Return (VNum (Fin 4)), False, [])
 \<and> number read_decimal None (VNum NaN) False = (Throw ''\"NaN\" is a NaN'', False, [])
 \<and> silent ''\"NaN\" is a NaN'' = None
 \<and> number read_decimal (Some silent) (VNum NaN) False
      = (Return (VNum NaN), False, [''\"NaN\" is a NaN''])"
  using primitive_identity [of "VStr ''4''" None False read_decimal silent]
    primitive_identity [of "VBool True" None False read_decimal silent]
    primitive_identity [of "VNum (Fin 4)" None False read_decimal silent]
    primitive_identity [of "VNum (Fin 4)" "Some silent" False read_decimal silent]
  by (simp add: silent_def nanMessage_NaN)

section \<open>\<^verbatim>\<open>oneOf\<close>\<close>

text \<open>
  C10.  When \<^verbatim>\<open>oneOf(...values)\<close> is applied to a value that is not among the listed
  values, the flag is clear and a custom handler is configured and returns, the handler
  is called once and the guard returns \<^verbatim>\<open>undefined\<close>, whatever the input and the listed
  values are.
\<close>

theorem oneOf_returns_undefined:
  "\<not> arr_includes vals v \<Longrightarrow> \<not> f \<Longrightarrow> h = Some c
     \<Longrightarrow> c (invalidType v (''one of '' @ js_String (VArr vals))) = None
     \<Longrightarrow> oneOf h vals v f
          = (Return VUndefined, False, [invalidType v (''one of '' @ js_String (VArr vals))])"
  by (simp add: oneOf_def handler_defs effect_defs)

theorem oneOf_returns_undefined_witness:
  "\<not> arr_includes [VNum (Fin 1), VNum (Fin 2)] (VNum (Fin 3))
   \<and> oneOf (Some silent) [VNum (Fin 1), VNum (Fin 2)] (VNum (Fin 3)) False
       = (Return VUndefined, False, [''`3` is not one of 1,2.''])"
  using oneOf_returns_undefined
    [of "[VNum (Fin 1), VNum (Fin 2)]" "VNum (Fin 3)" False "Some silent" silent]
  by (simp add: arr_includes_def silent_def invalidType_def stringified_def show_int_ex)

section \<open>\<^verbatim>\<open>array\<close>\<close>

lemma array_VArr: "array h g (VArr xs) = andThen (map_guard g xs) (\<lambda>ys. ret (VArr ys))"
  by (simp add: array_def)

lemma map_guard_first_throw:
  "map_guard g pre f = (Return rs, f1, l1) \<Longrightarrow> g x f1 = (Throw e, f2, l2)
     \<Longrightarrow> map_guard g (pre @ x # post) f = (Throw e, f2, l1 @ l2)"
proof (induction pre arbitrary: f rs l1)
  case Nil
  then show ?case by (simp add: effect_defs)
next
  case (Cons p pre)
  obtain c fa la where p: "g p f = (c, fa, la)" by (cases "g p f") auto
  show ?case
  proof (cases c)
    case (Throw e')
    with p Cons.prems(1) show ?thesis by (simp add: effect_defs)
  next
    case (Return y)
    obtain c' fb lb where pre: "map_guard g pre fa = (c', fb, lb)"
      by (cases "map_guard g pre fa") auto
    show ?thesis
    proof (cases c')
      case (Throw e')
      with p Return pre Cons.prems(1) show ?thesis by (simp add: effect_defs)
    next
      case (Return ys)
      with p \<open>c = Return y\<close> pre Cons.prems(1)
      have eq: "fb = f1" "l1 = la @ lb" by (simp_all add: effect_defs)
      from Cons.IH [of fa ys lb] pre Return eq Cons.prems(2)
      have "map_guard g (pre @ x # post) fa = (Throw e, f2, lb @ l2)" by simp
      with p \<open>c = Return y\<close> eq show ?thesis by (simp add: effect_defs)
    qed
  qed
qed

text \<open>
  C6.  For every inner guard \<open>g\<close>: \<^verbatim>\<open>array(g)([])\<close> returns \<^verbatim>\<open>[]\<close>;
  \<^verbatim>\<open>array(g)([v1, v2])\<close> returns \<^verbatim>\<open>[g(v1), g(v2)]\<close> when \<open>g\<close> returns on \<open>v1\<close> and then on
  \<open>v2\<close>; and when the elements \<open>pre\<close> are accepted and \<open>g\<close> throws on the next element
  \<open>x\<close>, the array guard throws that error with the flag and the handler calls as they are
  at that point, whatever elements \<open>post\<close> follow: the elements are validated in sequence
  order and none after the first failing one is validated.
\<close>

theorem array_elements:
  "array h g (VArr []) f = (Return (VArr []), f, [])
 \<and> (g v1 f = (Return r1, f1, l1) \<and> g v2 f1 = (Return r2, f2, l2) \<longrightarrow>
       array h g (VArr [v1, v2]) f = (Return (VArr [r1, r2]), f2, l1 @ l2))
 \<and> (array h g (VArr pre) f = (Return (VArr rs), fp, lp) \<and> g x fp = (Throw e, fx, lx) \<longrightarrow>
       array h g (VArr (pre @ x # post)) f = (Throw e, fx, lp @ lx))"
proof (intro conjI impI)
  show "array h g (VArr []) f = (Return (VArr []), f, [])"
    by (simp add: array_VArr effect_defs)
  show "array h g (VArr [v1, v2]) f = (Return (VArr [r1, r2]), f2, l1 @ l2)"
    if "g v1 f = (Return r1, f1, l1) \<and> g v2 f1 = (Return r2, f2, l2)"
    using that by (simp add: array_VArr effect_defs)
  show "array h g (VArr (pre @ x # post)) f = (Throw e, fx, lp @ lx)"
    if a: "array h g (VArr pre) f = (Return (VArr rs), fp, lp) \<and> g x fp = (Throw e, fx, lx)"
  proof -
    from a have "map_guard g pre f = (Return rs, fp, lp)"
      by (auto simp: array_VArr effect_defs split: prod.splits completion.splits)
    with a have "map_guard g (pre @ x # post) f = (Throw e, fx, lp @ lx)"
      by (simp add: map_guard_first_throw)
    then show ?thesis by (simp add: array_VArr effect_defs)
  qed
qed

theorem array_elements_witness:
  "number read_decimal None (VNum (Fin 1)) False = (Return (VNum (Fin 1)), False, [])
 \<and> number read_decimal None (VNum (Fin 2)) False = (Return (VNum (Fin 2)), False, [])
 \<and> array None (number read_decimal None) (VArr [VNum (Fin 1), VNum (Fin 2)]) False
     = (Return (VArr [VNum (Fin 1), VNum (Fin 2)]), False, [])
 \<and> array None (number read_decimal None) (VArr [VNum (Fin 1)]) False
     = (Return (VArr [VNum (Fin 1)]), False, [])
 \<and> number read_decimal None (VStr ''x'') False = (Throw ''`\"x\"` is not a `number`.'', False, [])
 \<and> array None (number read_decimal None) (VArr [VNum (Fin 1), VStr ''x'', VBool True]) False
     = (Throw ''`\"x\"` is not a `number`.'', False, [])"
  using array_elements [where h = None and g = "number read_decimal None" and f = False
      and ?v1.0 = "VNum (Fin 1)" and ?r1.0 = "VNum (Fin 1)" and ?f1.0 = False and ?l1.0 = "[]"
      and ?v2.0 = "VNum (Fin 2)" and ?r2.0 = "VNum (Fin 2)" and ?f2.0 = False and ?l2.0 = "[]"
      and pre = "[VNum (Fin 1)]" and rs = "[VNum (Fin 1)]" and fp = False and lp = "[]"
      and x = "VStr ''x''" and e = "''`\"x\"` is not a `number`.''" and fx = False and lx = "[]"
      and post = "[VBool True]"]
  by (simp add: array_VArr number_def handler_defs effect_defs ex_messages_more)

section \<open>\<^verbatim>\<open>object\<close>\<close>






lemma object_field_custom:
  assumes "\<And>v. disciplined (Some c) (g v)" and "\<forall>m. c m = None"
  shows "\<exists>out' l. object_field inh (Some c) k g val out False = (Return out', False, l)
           \<and> length l = (if returns (completion_of (g (get_prop inh val k) True)) then 0 else 1)"
proof -
  obtain r where g: "g (get_prop inh val k) True = (r, True, [])"
    using assms(1) [of "get_prop inh val k"] by (rule disciplined_result [where f = True]) auto
  with assms(2) show ?thesis
    by (cases r) (simp_all add: object_field_def handler_defs effect_defs)
qed

lemma object_fields_custom:
  assumes "\<forall>kg \<in> set shape. \<forall>v. disciplined (Some c) (snd kg v)" and "\<forall>m. c m = None"
  shows "\<exists>out' l. object_fields inh (Some c) shape val out False = (Return out', False, l)
           \<and> length l = length (failing_fields inh shape val)"
  using assms(1)
proof (induction shape arbitrary: out)
  case Nil
  show ?case by (simp add: ret_def failing_fields_def)
next
  case (Cons p shape)
  from Cons.prems have "\<And>v. disciplined (Some c) (snd p v)" by simp
  from object_field_custom [where g = "snd p" and k = "fst p", OF this assms(2)]
  obtain o1 l1
    where p: "object_field inh (Some c) (fst p) (snd p) val out False = (Return o1, False, l1)"
      and l1: "length l1
        = (if returns (completion_of (snd p (get_prop inh val (fst p)) True)) then 0 else 1)"
    by blast
  from Cons.IH [of o1] Cons.prems
  obtain o2 l2 where r: "object_fields inh (Some c) shape val o1 False = (Return o2, False, l2)"
    and l2: "length l2 = length (failing_fields inh shape val)" by auto
  from p r l1 l2 show ?case by (simp add: andThen_def failing_fields_def)
qed

lemma object_ex_custom:
  "object sample_inherited (Some silent)
      [(''a'', number read_decimal (Some silent)), (''b'', string (Some silent))]
      (VObj [(''a'', VStr ''4''), (''b'', VNum (Fin 4))]) False
   = (Return (VObj [(''a'', VStr ''4''), (''b'', VNum (Fin 4))]), False,
      [''Object 'a' property error: `\"4\"` is not a `number`.'',
       ''Object 'b' property error: `4` is not a `string`.''])"
  by (simp add: object_def object_field_def number_def string_def handler_defs effect_defs
      prop_defs silent_def propertyError_def ex_messages ex_messages_more)

lemma ex_shape_bound:
  "\<forall>kg \<in> set [(''a'', number read_decimal h), (''b'', string h)]. bound_guard h (snd kg)"
  by (simp add: bound_guard.intros)

text \<open>
  C8, as amended.  For a call of an \<^verbatim>\<open>object\<close> guard whose shape is made of guards of the
  factory, on a non-null object: when no custom handler is configured or the flag is set,
  the custom handler is not called and at most one failure is reported per call (one
  throw); when a custom handler is configured and returns and the flag is clear, the call
  returns and the number of failures reported (all of them handler calls) is the number
  of declared fields whose guard fails.
\<close>

theorem object_reports:
  assumes "\<forall>kg \<in> set shape. bound_guard h (snd kg)"
    and "val \<noteq> VNull" and "typeof val = ''object''"
  shows "(f \<or> h = None \<longrightarrow>
            handled_of (object inh h shape val f) = []
            \<and> reported (object inh h shape val f) \<le> 1)
       \<and> (\<not> f \<and> h = Some c \<and> (\<forall>m. c m = None) \<longrightarrow>
            returns (completion_of (object inh h shape val f))
            \<and> reported (object inh h shape val f) = length (failing_fields inh shape val))"
proof (intro conjI impI)
  from assms(1) have d: "\<forall>kg \<in> set shape. \<forall>v. disciplined h (snd kg v)"
    by (simp add: bound_guard_disciplined)
  then have "disciplined h (object inh h shape val)" by (rule disciplined_object)
  then obtain c0 l0 where r: "object inh h shape val f = (c0, f, l0)"
    and l0: "f \<or> h = None \<Longrightarrow> l0 = []"
    by (rule disciplined_result [where f = f]) auto
  from r l0 show "handled_of (object inh h shape val f) = []" if "f \<or> h = None"
    using that by (simp add: handled_of_def)
  from r l0 show "reported (object inh h shape val f) \<le> 1" if "f \<or> h = None"
    using that by (simp add: reported_def handled_of_def)
  assume c: "\<not> f \<and> h = Some c \<and> (\<forall>m. c m = None)"
  with d have "\<exists>out' l. object_fields inh (Some c) shape val [] False = (Return out', False, l)
      \<and> length l = length (failing_fields inh shape val)"
    by (intro object_fields_custom) simp_all
  then obtain out' l
    where "object_fields inh (Some c) shape val [] False = (Return out', False, l)"
      and "length l = length (failing_fields inh shape val)" by blast
  with c assms(2,3)
  have "object inh h shape val f = (Return (VObj out'), False, l)"
    by (simp add: object_def effect_defs)
  with \<open>length l = length (failing_fields inh shape val)\<close>
  show "returns (completion_of (object inh h shape val f))"
    and "reported (object inh h shape val f) = length (failing_fields inh shape val)"
    by (simp_all add: reported_def completion_of_def handled_of_def)
qed

theorem object_reports_witness:
  "handled_of
     (object sample_inherited None [(''a'', number read_decimal None), (''b'', string None)]
       (VObj [(''a'', VStr ''4''), (''b'', VNum (Fin 4))]) False) = []
 \<and> reported
     (object sample_inherited None [(''a'', number read_decimal None), (''b'', string None)]
       (VObj [(''a'', VStr ''4''), (''b'', VNum (Fin 4))]) False) \<le> 1
 \<and> returns (completion_of (object sample_inherited (Some silent)
       [(''a'', number read_decimal (Some silent)), (''b'', string (Some silent))]
       (VObj [(''a'', VStr ''4''), (''b'', VNum (Fin 4))]) False))
 \<and> reported (object sample_inherited (Some silent)
       [(''a'', number read_decimal (Some silent)), (''b'', string (Some silent))]
       (VObj [(''a'', VStr ''4''), (''b'', VNum (Fin 4))]) False) = 2
 \<and> length (failing_fields sample_inherited
       [(''a'', number read_decimal (Some silent)), (''b'', string (Some silent))]
       (VObj [(''a'', VStr ''4''), (''b'', VNum (Fin 4))])) = 2
 \<and> reported (object sample_inherited (Some silent)
       [(''constructor'', optional (string (Some silent)))] (VObj []) False) = 1
 \<and> length (failing_fields sample_inherited
       [(''constructor'', optional (string (Some silent)))] (VObj [])) = 1"
proof -
  have ff: "length (failing_fields sample_inherited
       [(''a'', number read_decimal (Some silent)), (''b'', string (Some silent))]
       (VObj [(''a'', VStr ''4''), (''b'', VNum (Fin 4))])) = 2"
    "length (failing_fields sample_inherited
       [(''constructor'', optional (string (Some silent)))] (VObj [])) = 1"
    by (simp_all add: failing_fields_def number_def string_def optional_def handler_defs
        effect_defs prop_defs)
  have b: "\<forall>kg \<in> set [(''constructor'', optional (string (Some silent)))].
      bound_guard (Some silent) (snd kg)"
    by (simp add: bound_guard.intros)
  from object_reports [OF ex_shape_bound [of None],
      where val = "VObj [(''a'', VStr ''4''), (''b'', VNum (Fin 4))]" and f = False
        and c = silent and inh = sample_inherited]
    object_reports [OF ex_shape_bound [of "Some silent"],
      where val = "VObj [(''a'', VStr ''4''), (''b'', VNum (Fin 4))]" and f = False
        and c = silent and inh = sample_inherited]
    object_reports [OF b, where val = "VObj []" and f = False and c = silent
        and inh = sample_inherited]
    ff
  show ?thesis by (simp add: silent_def)
qed

text \<open>
  C8 as stated fails: with a custom handler that returns,
  \<^verbatim>\<open>object({a: number, b: string})({a: "4", b: 4})\<close> calls the handler twice in one call,
  once for each failing field.
\<close>

theorem object_reports_counterexample:
  "handled_of (object sample_inherited (Some silent)
       [(''a'', number read_decimal (Some silent)), (''b'', string (Some silent))]
       (VObj [(''a'', VStr ''4''), (''b'', VNum (Fin 4))]) False)
     = [''Object 'a' property error: `\"4\"` is not a `number`.'',
        ''Object 'b' property error: `4` is not a `string`.'']
 \<and> \<not> reported (object sample_inherited (Some silent)
       [(''a'', number read_decimal (Some silent)), (''b'', string (Some silent))]
       (VObj [(''a'', VStr ''4''), (''b'', VNum (Fin 4))]) False) \<le> 1"
  by (simp add: object_ex_custom reported_def handled_of_def completion_of_def)

section \<open>\<^verbatim>\<open>either\<close>\<close>

lemma either_ex_default:
  "either None (number read_decimal None) (string None) (VBool True) False
     = (Throw ''Error: `true` is not a `number`.'', False, [])"
  by (simp add: either_def either_probe_def number_def string_def handler_defs effect_defs
      ex_messages error_to_string_def)

lemma either_ex_custom:
  "either (Some silent) (number read_decimal (Some silent)) (string (Some silent))
      (VBool True) False
     = (Return (VBool True), False,
        [''Error: `true` is not a `number`.'', ''Error: `true` is not a `string`.''])"
  by (simp add: either_def either_probe_def number_def string_def handler_defs effect_defs
      ex_messages error_to_string_def silent_def)

lemma either_ex_second:
  "either None (number read_decimal None) (string None) (VStr ''4'') False
     = (Return (VStr ''4''), False, [])"
  by (simp add: either_def either_probe_def number_def string_def handler_defs effect_defs)

lemma andThen_only_returns:
  assumes "\<And>x f'. returns (completion_of (k x f')) \<Longrightarrow> completion_of (k x f') = Return v"
    and "returns (completion_of (andThen m k f))"
  shows "completion_of (andThen m k f) = Return v"
proof -
  obtain c f1 l1 where m: "m f = (c, f1, l1)" by (cases "m f") auto
  show ?thesis
  proof (cases c)
    case (Throw e)
    with m assms(2) show ?thesis by (simp add: andThen_def completion_of_def)
  next
    case (Return x)
    obtain c2 f2 l2 where k: "k x f1 = (c2, f2, l2)" by (cases "k x f1") auto
    with m Return assms(2) have "returns (completion_of (k x f1))"
      by (simp add: andThen_def completion_of_def)
    then have "completion_of (k x f1) = Return v" by (rule assms(1))
    with m Return k show ?thesis by (simp add: andThen_def completion_of_def)
  qed
qed

text \<open>
  C7.  Whenever \<^verbatim>\<open>either(a, b)(v)\<close> returns, the value returned is the input \<open>v\<close>
  itself, for all guards \<open>a\<close> and \<open>b\<close>, every handler and either state of the flag.  The
  instances below are a call in which the second branch accepts the input and a call in
  which both branches fail under a custom handler that returns.
\<close>

theorem either_returns_input:
  "returns (completion_of (either h a b v f)) \<Longrightarrow> completion_of (either h a b v f) = Return v"
  unfolding either_def
  by (intro andThen_only_returns) (simp_all add: ret_def completion_of_def)

theorem either_returns_input_witness:
  "returns (completion_of
      (either None (number read_decimal None) (string None) (VStr ''4'') False))
 \<and> completion_of (either None (number read_decimal None) (string None) (VStr ''4'') False)
     = Return (VStr ''4'')
 \<and> \<not> returns (completion_of (number read_decimal (Some silent) (VBool True) True))
 \<and> \<not> returns (completion_of (string (Some silent) (VBool True) True))
 \<and> returns (completion_of
      (either (Some silent) (number read_decimal (Some silent)) (string (Some silent))
         (VBool True) False))
 \<and> completion_of
      (either (Some silent) (number read_decimal (Some silent)) (string (Some silent))
         (VBool True) False)
     = Return (VBool True)"
  using either_returns_input
      [of None "number read_decimal None" "string None" "VStr ''4''" False]
    either_returns_input
      [of "Some silent" "number read_decimal (Some silent)" "string (Some silent)"
        "VBool True" False]
  by (simp add: either_ex_second either_ex_custom number_def string_def first_report_raises
      completion_of_def)

lemma starts_with_self: "starts_with s s"
  by (induction s) simp_all

lemma str_includes_self: "str_includes s s"
  by (cases s) (simp_all add: starts_with_self)

lemma str_includes_suffix: "str_includes (p @ s) s"
  by (induction p) (simp_all add: str_includes_self)

lemma str_includes_error_to_string: "str_includes (error_to_string e) e"
proof (cases "e = []")
  case True
  then show ?thesis by (simp add: error_to_string_def)
next
  case False
  have "str_includes (''Error: '' @ e) e" by (rule str_includes_suffix)
  with False show ?thesis by (simp add: error_to_string_def)
qed

text \<open>
  C2, as amended.  When both branch guards fail on an input with the flag set (the first
  one leaving the flag set, as every guard of the factory does), \<^verbatim>\<open>either(a, b)\<close> called
  with the flag clear and no custom handler throws, and the message thrown is the text of
  the error of branch \<open>a\<close>: \<^verbatim>\<open>Error: \<close> followed by the message of that error, or
  \<^verbatim>\<open>Error\<close> alone when that message is empty.  So the message of branch \<open>a\<close> occurs in
  the message thrown.  The flag is clear afterwards.
\<close>

theorem either_default_raises_first:
  assumes "completion_of (a v True) = Throw ea" and "forceError_of (a v True) = True"
    and "completion_of (b v True) = Throw eb"
  shows "completion_of (either None a b v False)
           = Throw (if ea = [] then ''Error'' else ''Error: '' @ ea)
       \<and> str_includes (if ea = [] then ''Error'' else ''Error: '' @ ea) ea
       \<and> forceError_of (either None a b v False) = False"
proof -
  obtain la where a: "a v True = (Throw ea, True, la)"
    using assms(1,2) by (cases "a v True") (auto simp: completion_of_def forceError_of_def)
  obtain fb lb where b: "b v True = (Throw eb, fb, lb)"
    using assms(3) by (cases "b v True") (auto simp: completion_of_def)
  from a b have "completion_of (either None a b v False) = Throw (error_to_string ea)"
    and "forceError_of (either None a b v False) = False"
    by (simp_all add: either_def either_probe_def handler_defs effect_defs)
  moreover have "str_includes (error_to_string ea) ea"
    by (rule str_includes_error_to_string)
  ultimately show ?thesis by (simp add: error_to_string_def)
qed

theorem either_default_raises_first_witness:
  "completion_of (number read_decimal None (VBool True) True) = Throw ''`true` is not a `number`.''
 \<and> forceError_of (number read_decimal None (VBool True) True) = True
 \<and> completion_of (string None (VBool True) True) = Throw ''`true` is not a `string`.''
 \<and> completion_of (either None (number read_decimal None) (string None) (VBool True) False)
     = Throw ''Error: `true` is not a `number`.''
 \<and> str_includes ''Error: `true` is not a `number`.'' ''`true` is not a `number`.''
 \<and> forceError_of (either None (number read_decimal None) (string None) (VBool True) False)
     = False"
  using either_default_raises_first [of "number read_decimal None" "VBool True"
      "''`true` is not a `number`.''" "string None" "''`true` is not a `string`.''"]
  by (simp add: number_def string_def first_report_raises completion_of_def forceError_of_def
      ex_messages)

text \<open>
  C2 as stated fails: both branches of \<^verbatim>\<open>either(number, string)\<close> fail on \<^verbatim>\<open>true\<close>, and
  the message thrown is \<^verbatim>\<open>Error: `true` is not a `number`.\<close>, in which the message of
  the second branch does not occur.
\<close>

theorem either_aggregate_counterexample:
  "completion_of (number read_decimal None (VBool True) True) = Throw ''`true` is not a `number`.''
 \<and> completion_of (string None (VBool True) True) = Throw ''`true` is not a `string`.''
 \<and> completion_of (either None (number read_decimal None) (string None) (VBool True) False)
     = Throw ''Error: `true` is not a `number`.''
 \<and> \<not> str_includes ''Error: `true` is not a `number`.'' ''`true` is not a `string`.''"
  by (simp add: either_ex_default number_def string_def first_report_raises completion_of_def
      ex_messages)

section \<open>The flag and \<^verbatim>\<open>is\<close>\<close>

lemma ex_either_bound:
  "bound_guard h (either h (number read_decimal h)
      (object inh h [(''a'', number read_decimal h), (''b'', string h)]))"
  by (intro bound_guard.intros ballI) (auto intro: bound_guard.intros)

lemma ex_object_default:
  "object sample_inherited None [(''a'', number read_decimal None), (''b'', string None)]
      (VObj [(''a'', VStr ''4''), (''b'', VNum (Fin 4))]) False
   = (Throw ''Object 'a' property error: `\"4\"` is not a `number`.'', False, [])"
  by (simp add: object_def object_field_def number_def handler_defs effect_defs prop_defs
      propertyError_def ex_messages)

text \<open>
  C1.  For every guard \<open>g\<close> built from the guards and combinators of one factory
  (\<^verbatim>\<open>string\<close>, \<^verbatim>\<open>number\<close>, \<^verbatim>\<open>boolean\<close>, \<^verbatim>\<open>oneOf\<close>, \<^verbatim>\<open>array\<close>, \<^verbatim>\<open>object\<close>, \<^verbatim>\<open>recordOf\<close>,
  \<^verbatim>\<open>nullable\<close>, \<^verbatim>\<open>optional\<close>, \<^verbatim>\<open>either\<close>), every input, every handler and either state
  of the flag, the flag after a call of \<open>g\<close>, and after a call of \<^verbatim>\<open>is\<close> on \<open>g\<close>, is the flag
  before it, whether the call returns or throws.  So a call made after a top-level call
  (flag clear) runs from a clear flag and behaves as it would have without the earlier
  call.
\<close>

theorem suppression_restored:
  assumes "bound_guard h g"
  shows "forceError_of (g v f) = f
       \<and> forceError_of (is' v g f) = f
       \<and> g' v' (forceError_of (g v False)) = g' v' False
       \<and> g' v' (forceError_of (is' v g False)) = g' v' False"
proof -
  from assms have d: "disciplined h (g v)" by (rule bound_guard_disciplined)
  then have "forceError_of (g v f) = f" and "forceError_of (g v False) = False"
    by (simp_all add: disciplined_def)
  moreover from d have "forceError_of (is' v g f) = f" and "forceError_of (is' v g False) = False"
    by (simp_all add: is_result forceError_of_def)
  ultimately show ?thesis by simp
qed

theorem suppression_restored_witness:
  "bound_guard None
      (object sample_inherited None [(''a'', number read_decimal None), (''b'', string None)])
 \<and> \<not> returns (completion_of
      (object sample_inherited None [(''a'', number read_decimal None), (''b'', string None)]
         (VObj [(''a'', VStr ''4''), (''b'', VNum (Fin 4))]) False))
 \<and> forceError_of
      (object sample_inherited None [(''a'', number read_decimal None), (''b'', string None)]
         (VObj [(''a'', VStr ''4''), (''b'', VNum (Fin 4))]) False) = False
 \<and> forceError_of
      (is' (VObj [(''a'', VStr ''4''), (''b'', VNum (Fin 4))])
         (object sample_inherited None [(''a'', number read_decimal None), (''b'', string None)])
         False) = False
 \<and> string None (VBool True)
      (forceError_of
         (object sample_inherited None [(''a'', number read_decimal None), (''b'', string None)]
            (VObj [(''a'', VStr ''4''), (''b'', VNum (Fin 4))]) False))
     = string None (VBool True) False
 \<and> bound_guard (Some silent) (either (Some silent) (number read_decimal (Some silent))
      (object sample_inherited (Some silent)
         [(''a'', number read_decimal (Some silent)), (''b'', string (Some silent))]))
 \<and> forceError_of
      (either (Some silent) (number read_decimal (Some silent))
         (object sample_inherited (Some silent)
            [(''a'', number read_decimal (Some silent)), (''b'', string (Some silent))])
         (VObj [(''a'', VStr ''4''), (''b'', VNum (Fin 4))]) True) = True"
  using suppression_restored
      [OF bg_object [where inh = sample_inherited, OF ex_shape_bound [of None]],
        of "VObj [(''a'', VStr ''4''), (''b'', VNum (Fin 4))]" False "string None" "VBool True"]
    suppression_restored
      [OF ex_either_bound [where h = "Some silent" and inh = sample_inherited],
        of "VObj [(''a'', VStr ''4''), (''b'', VNum (Fin 4))]" True "string None" "VBool True"]
    bg_object [where inh = sample_inherited, OF ex_shape_bound [of None]]
    ex_either_bound [where h = "Some silent" and inh = sample_inherited]
  by (simp add: ex_object_default completion_of_def)

text \<open>
  C3.  For every value \<open>v\<close> and every guard \<open>g\<close>, \<^verbatim>\<open>is(v, g)\<close> never throws, and it
  returns \<^verbatim>\<open>true\<close> if and only if \<open>g\<close> applied to \<open>v\<close> with the flag set does not throw.
  When \<open>g\<close> is a guard of the factory, then whatever handler the factory has, \<^verbatim>\<open>is\<close> calls
  no custom handler and leaves the flag as it found it, also when the flag was already
  set by an enclosing call.
\<close>

theorem is_checks:
  "completion_of (is' v g f) = Return (returns (completion_of (g v True)))
 \<and> (bound_guard h g \<longrightarrow> handled_of (is' v g f) = [] \<and> forceError_of (is' v g f) = f)"
proof (intro conjI impI)
  obtain c f1 l1 where "g v True = (c, f1, l1)" by (cases "g v True") auto
  then show "completion_of (is' v g f) = Return (returns (completion_of (g v True)))"
    by (cases c) (simp_all add: is'_def effect_defs)
  assume "bound_guard h g"
  then have "disciplined h (g v)" by (rule bound_guard_disciplined)
  then show "handled_of (is' v g f) = []" and "forceError_of (is' v g f) = f"
    by (simp_all add: is_result effect_defs)
qed

theorem is_checks_witness:
  "bound_guard (Some silent) (number read_decimal (Some silent))
 \<and> is' (VStr ''4'') (number read_decimal (Some silent)) False = (Return False, False, [])
 \<and> is' (VNum (Fin 4)) (number read_decimal (Some silent)) False = (Return True, False, [])
 \<and> is' (VStr ''4'') (number read_decimal (Some silent)) True = (Return False, True, [])
 \<and> handled_of (number read_decimal (Some silent) (VStr ''4'') False)
     = [''`\"4\"` is not a `number`.'', ''Casting `\"4\"` to a `number`.'']"
proof -
  have b: "bound_guard (Some silent) (number read_decimal (Some silent))"
    by (rule bg_number)
  have n: "completion_of (number read_decimal (Some silent) (VStr ''4'') True)
      = Throw ''`\"4\"` is not a `number`.''"
    "completion_of (number read_decimal (Some silent) (VNum (Fin 4)) True) = Return (VNum (Fin 4))"
    by (simp_all add: number_def handler_defs effect_defs ex_messages)
  have h: "handled_of (number read_decimal (Some silent) (VStr ''4'') False)
     = [''`\"4\"` is not a `number`.'', ''Casting `\"4\"` to a `number`.'']"
    by (simp add: number_def handler_defs effect_defs silent_def invalidType_def castingType_def
        stringified_def json_quote_def json_escape_def)
  from is_checks [of "VStr ''4''" "number read_decimal (Some silent)" False "Some silent"]
    is_checks [of "VNum (Fin 4)" "number read_decimal (Some silent)" False "Some silent"]
    is_checks [of "VStr ''4''" "number read_decimal (Some silent)" True "Some silent"]
    b n h
  show ?thesis
    by (simp add: completion_of_def forceError_of_def handled_of_def prod_eq_iff)
qed

end
